theory Spec2Isabelle
  imports Complex_Main "HOL-Library.Sublist" "HOL-Library.List_Lexorder" "HOL-Library.Char_ord"
begin

section \<open>Numbers, vectors and boxes\<close>

text \<open>
  The program of \<^verbatim>\<open>data.py\<close> computes with numpy \<^verbatim>\<open>float64\<close> values. They are
  idealised here to real numbers (no rounding, no overflow); the one place where IEEE
  arithmetic leaves the reals, the division of the IoU step, is modelled with its special
  values. A 2-element numpy array is a pair, a 4-element box \<open>(min_x, min_y, max_x, max_y)\<close>
  a 4-tuple. The quota counters are integers.
\<close>

type_synonym vec2 = "real \<times> real"
type_synonym bbox = "real \<times> real \<times> real \<times> real"

definition COEF_SCALE :: real where
  "COEF_SCALE = 1.05"

text \<open>\<^verbatim>\<open>lt, br = bbox.reshape([2, 2])\<close> and \<^verbatim>\<open>numpy.concatenate([nlt, nbr])\<close>.\<close>

fun reshape22 :: "bbox \<Rightarrow> vec2 \<times> vec2" where
  "reshape22 (x0, y0, x1, y1) = ((x0, y0), (x1, y1))"

fun concatenate :: "vec2 \<Rightarrow> vec2 \<Rightarrow> bbox" where
  "concatenate (x0, y0) (x1, y1) = (x0, y0, x1, y1)"

text \<open>Elementwise arithmetic of numpy on 2-element arrays, and broadcasting of a scalar.\<close>

fun vadd :: "vec2 \<Rightarrow> vec2 \<Rightarrow> vec2" where
  "vadd (a, b) (c, d) = (a + c, b + d)"

fun vsub :: "vec2 \<Rightarrow> vec2 \<Rightarrow> vec2" where
  "vsub (a, b) (c, d) = (a - c, b - d)"

fun smul :: "vec2 \<Rightarrow> real \<Rightarrow> vec2" where
  "smul (a, b) k = (a * k, b * k)"

fun sdiv :: "vec2 \<Rightarrow> real \<Rightarrow> vec2" where
  "sdiv (a, b) k = (a / k, b / k)"

fun maximum :: "vec2 \<Rightarrow> vec2 \<Rightarrow> vec2" where
  "maximum (a, b) (c, d) = (max a c, max b d)"

fun minimum :: "vec2 \<Rightarrow> vec2 \<Rightarrow> vec2" where
  "minimum (a, b) (c, d) = (min a c, min b d)"

text \<open>\<^verbatim>\<open>numpy.mean\<close> and \<^verbatim>\<open>numpy.prod\<close> of a 2-element array; \<^verbatim>\<open>numpy.prod\<close> of a
  scalar is that scalar.\<close>

fun mean2 :: "vec2 \<Rightarrow> real" where
  "mean2 (a, b) = (a + b) / 2"

fun prod2 :: "vec2 \<Rightarrow> real" where
  "prod2 (a, b) = a * b"

definition prod0 :: "real \<Rightarrow> real" where
  "prod0 x = x"

text \<open>\<^verbatim>\<open>(u < v).any()\<close> and \<^verbatim>\<open>(u > v).any()\<close>.\<close>

fun any_lt :: "vec2 \<Rightarrow> vec2 \<Rightarrow> bool" where
  "any_lt (a, b) (c, d) = (a < c \<or> b < d)"

fun any_gt :: "vec2 \<Rightarrow> vec2 \<Rightarrow> bool" where
  "any_gt (a, b) (c, d) = (a > c \<or> b > d)"

text \<open>
  The result of a \<^verbatim>\<open>float64\<close> division. numpy does not raise on a zero divisor (it
  warns): \<open>0/0\<close> is NaN, \<open>x/0\<close> is an infinity with the sign of \<open>x\<close> (a zero that results
  from adding and subtracting as the IoU step does is \<open>+0\<close>). A comparison with NaN is
  false.
\<close>

datatype npfloat = Finite real | PosInf | NegInf | NaN

definition np_divide :: "real \<Rightarrow> real \<Rightarrow> npfloat" where
  "np_divide a b =
     (if b \<noteq> 0 then Finite (a / b)
      else if a = 0 then NaN
      else if a > 0 then PosInf else NegInf)"

fun np_ge :: "npfloat \<Rightarrow> real \<Rightarrow> bool" where
  "np_ge (Finite x) t = (x \<ge> t)"
| "np_ge PosInf t = True"
| "np_ge NegInf t = False"
| "np_ge NaN t = False"

fun np_lt :: "npfloat \<Rightarrow> real \<Rightarrow> bool" where
  "np_lt (Finite x) t = (x < t)"
| "np_lt PosInf t = False"
| "np_lt NegInf t = True"
| "np_lt NaN t = False"

text \<open>
  The exceptions of the program as values, one constructor for each Python class:
  \<^verbatim>\<open>ValueError\<close> with its message, \<^verbatim>\<open>IndexError\<close> and \<^verbatim>\<open>TypeError\<close>. The two
  \<^verbatim>\<open>raise ValueError\<close> statements of \<^verbatim>\<open>Folder.__init__\<close>, the \<^verbatim>\<open>ValueError\<close> of
  \<^verbatim>\<open>numpy.genfromtxt\<close> on a text it rejects and the one of \<^verbatim>\<open>numpy.random.normal\<close> on a
  negative scale are all values of the first constructor.
\<close>

datatype error =
    ValueError string
  | IndexError
  | TypeError

text \<open>
  \<^verbatim>\<open>numpy.random.normal(loc, scale)\<close> returns \<open>loc + scale * z\<close> for a standard normal
  sample \<open>z\<close> and raises \<^verbatim>\<open>ValueError\<close> on a negative scale. The samples \<open>z\<close> are the
  random input of the model.
\<close>

definition normal :: "real \<Rightarrow> real \<Rightarrow> real \<Rightarrow> error + real" where
  "normal loc scale z =
     (if scale < 0 then Inl (ValueError ''scale < 0'') else Inr (loc + scale * z))"

fun normal2 :: "vec2 \<Rightarrow> vec2 \<Rightarrow> vec2 \<Rightarrow> error + vec2" where
  "normal2 (lx, ly) (sx, sy) (zx, zy) =
     (if sx < 0 \<or> sy < 0 then Inl (ValueError ''scale < 0'')
      else Inr (lx + sx * zx, ly + sy * zy))"

section \<open>RegionDataset\<close>

record ('img, 'lbl) RegionDataset =
  img :: 'img
  crops :: "(bool \<times> bbox) list"
  transforms :: "('img \<Rightarrow> 'img) option"
  target_transforms_pos :: "(bbox \<Rightarrow> 'lbl) option"
  target_transforms_neg :: "(bbox \<Rightarrow> 'lbl) option"

text \<open>The target is the raw box unless the label transform of its class is configured.\<close>

datatype 'lbl target = Raw bbox | Transformed 'lbl

definition RegionDataset_len :: "('img, 'lbl) RegionDataset \<Rightarrow> nat" where
  "RegionDataset_len self = length (crops self)"

text \<open>
  \<^verbatim>\<open>self.crops[index]\<close> on a Python list: a negative index counts from the end, an index
  out of range raises \<^verbatim>\<open>IndexError\<close>.
\<close>

definition list_getitem :: "'a list \<Rightarrow> int \<Rightarrow> error + 'a" where
  "list_getitem xs index =
     (if 0 \<le> index \<and> index < int (length xs) then Inr (xs ! nat index)
      else if index < 0 \<and> - int (length xs) \<le> index then Inr (xs ! nat (int (length xs) + index))
      else Inl IndexError)"

text \<open>
  \<^verbatim>\<open>RegionDataset.__getitem__\<close>. The image's \<^verbatim>\<open>crop\<close> method is the parameter \<open>crop\<close>.
  The view is passed through, so that the theorem on it can state that an access leaves
  it as it was.
\<close>

definition RegionDataset_getitem ::
  "('img \<Rightarrow> bbox \<Rightarrow> 'img) \<Rightarrow> ('img, 'lbl) RegionDataset \<Rightarrow> int
     \<Rightarrow> error + (('img \<times> 'lbl target) \<times> ('img, 'lbl) RegionDataset)" where
  "RegionDataset_getitem crop self index =
     (case list_getitem (crops self) index of
        Inl e \<Rightarrow> Inl e
      | Inr (is_pos, bbox) \<Rightarrow>
          let img0 = crop (img self) bbox;
              target0 = Raw bbox;
              img1 = (case transforms self of None \<Rightarrow> img0 | Some t \<Rightarrow> t img0);
              target1 =
                (if is_pos \<and> target_transforms_pos self \<noteq> None
                   then Transformed (the (target_transforms_pos self) bbox)
                 else if \<not> is_pos \<and> target_transforms_neg self \<noteq> None
                   then Transformed (the (target_transforms_neg self) bbox)
                 else target0)
          in Inr ((img1, target1), self))"

section \<open>SimpleSampler\<close>

record ('img, 'lbl) SimpleSampler =
  isize :: vec2
  s_transforms :: "('img \<Rightarrow> 'img) option"
  s_target_transforms_pos :: "(bbox \<Rightarrow> 'lbl) option"
  s_target_transforms_neg :: "(bbox \<Rightarrow> 'lbl) option"
  num :: "int \<times> int"
  num_total :: int
  thres_pos :: real
  thres_neg :: real
  sigma_t :: vec2
  sigma_s :: real

definition SimpleSampler_init ::
  "bbox \<Rightarrow> ('img \<Rightarrow> 'img) option \<Rightarrow> (bbox \<Rightarrow> 'lbl) option \<Rightarrow> (bbox \<Rightarrow> 'lbl) option
     \<Rightarrow> int \<times> int \<Rightarrow> real \<times> real \<Rightarrow> vec2 \<Rightarrow> real \<Rightarrow> ('img, 'lbl) SimpleSampler" where
  "SimpleSampler_init init_bbox tr tr_pos tr_neg n threshold sigma_xy sigma_sc =
     (let (lt, br) = reshape22 init_bbox
      in \<lparr> isize = vsub br lt,
           s_transforms = tr,
           s_target_transforms_pos = tr_pos,
           s_target_transforms_neg = tr_neg,
           num = n,
           num_total = fst n + snd n,
           thres_pos = fst threshold,
           thres_neg = snd threshold,
           sigma_t = sigma_xy,
           sigma_s = sigma_sc \<rparr>)"

text \<open>
  The locals of \<^verbatim>\<open>__call__\<close> computed from its box argument before the loop.
  \<^verbatim>\<open>sz\<close> is the mean of width and height, and \<^verbatim>\<open>area = numpy.prod(sz)\<close> is the product
  over that single number.
\<close>

record frame =
  lt :: vec2
  br :: vec2
  ctr :: vec2
  sz :: real
  area :: real
  sigma :: vec2

definition call_frame :: "('img, 'lbl) SimpleSampler \<Rightarrow> bbox \<Rightarrow> frame" where
  "call_frame self bbox =
     (let (lt0, br0) = reshape22 bbox;
          ctr0 = sdiv (vadd lt0 br0) 2;
          sz0 = mean2 (vsub br0 lt0);
          area0 = prod0 sz0;
          sigma0 = smul (sigma_t self) sz0
      in \<lparr> lt = lt0, br = br0, ctr = ctr0, sz = sz0, area = area0, sigma = sigma0 \<rparr>)"

text \<open>
  The loop state: the list \<^verbatim>\<open>data\<close> and the counters \<^verbatim>\<open>remain\<close> (pos, neg). A counter
  is decremented only when it is not zero, so a counter that starts non-negative never
  leaves the range of numpy's fixed-width integers.
\<close>

type_synonym lstate = "(bool \<times> bbox) list \<times> (int \<times> int)"

fun remain_get :: "int \<times> int \<Rightarrow> nat \<Rightarrow> int" where
  "remain_get (rp, rn) idx = (if idx = 0 then rp else rn)"

fun remain_set :: "int \<times> int \<Rightarrow> nat \<Rightarrow> int \<Rightarrow> int \<times> int" where
  "remain_set (rp, rn) idx v = (if idx = 0 then (v, rn) else (rp, v))"

fun add_data :: "bool \<Rightarrow> vec2 \<Rightarrow> vec2 \<Rightarrow> lstate \<Rightarrow> lstate" where
  "add_data is_pos nlt nbr (data, remain) =
     (let idx = (if \<not> is_pos then 1 else 0)
      in if remain_get remain idx = 0 then (data, remain)
         else (data @ [(is_pos, concatenate nlt nbr)],
               remain_set remain idx (remain_get remain idx - 1)))"

text \<open>One iteration draws three standard normal samples: two for the centre, one for
  the scale.\<close>

record draw =
  z_ctr :: vec2
  z_s :: real

text \<open>\<^verbatim>\<open># gen region\<close>: the candidate \<open>(nlt, nbr)\<close> and its half-size \<open>nsize_2\<close>.\<close>

definition gen_region ::
  "('img, 'lbl) SimpleSampler \<Rightarrow> frame \<Rightarrow> draw \<Rightarrow> error + (vec2 \<times> vec2 \<times> vec2)" where
  "gen_region self fr d =
     (case normal2 (ctr fr) (sigma fr) (z_ctr d) of
        Inl e \<Rightarrow> Inl e
      | Inr nctr \<Rightarrow>
          (case normal 0 (sigma_s self) (z_s d) of
             Inl e \<Rightarrow> Inl e
           | Inr s \<Rightarrow>
               let nsize_2 = sdiv (smul (isize self) (COEF_SCALE powr s)) 2;
                   nlt = vsub nctr nsize_2;
                   nbr = vadd nctr nsize_2
               in Inr (nlt, nbr, nsize_2)))"

text \<open>\<^verbatim>\<open># overlap test\<close>: true when the candidate is rejected as disjoint.\<close>

definition overlap_test :: "frame \<Rightarrow> vec2 \<Rightarrow> vec2 \<Rightarrow> bool" where
  "overlap_test fr nlt nbr = (any_lt (br fr) nlt \<or> any_gt (lt fr) nbr)"

text \<open>\<^verbatim>\<open># iou\<close>.\<close>

definition iou_step :: "frame \<Rightarrow> vec2 \<Rightarrow> vec2 \<Rightarrow> vec2 \<Rightarrow> npfloat" where
  "iou_step fr nlt nbr nsize_2 =
     (let olt = maximum (lt fr) nlt;
          obr = minimum (br fr) nbr;
          area_over = prod2 (vsub obr olt);
          area_add = prod2 nsize_2 * 4;
          area_union = area fr + area_add - area_over
      in np_divide area_over area_union)"

text \<open>\<^verbatim>\<open># iou test\<close>.\<close>

definition iou_test ::
  "('img, 'lbl) SimpleSampler \<Rightarrow> npfloat \<Rightarrow> vec2 \<Rightarrow> vec2 \<Rightarrow> lstate \<Rightarrow> lstate" where
  "iou_test self iou nlt nbr st =
     (if np_ge iou (thres_pos self) then add_data True nlt nbr st
      else if np_lt iou (thres_neg self) then add_data False nlt nbr st
      else st)"

text \<open>
  The body of \<^verbatim>\<open>while True\<close>. Besides the control outcome it reports which branch the
  iteration took: \<open>Disjoint\<close> when the overlap test rejected the candidate, so that the
  IoU expression was not evaluated, and \<open>Scored iou\<close> when it was.
\<close>

datatype event = Disjoint | Scored npfloat

datatype ctl = Continue lstate | Break lstate

definition loop_body ::
  "('img, 'lbl) SimpleSampler \<Rightarrow> frame \<Rightarrow> draw \<Rightarrow> lstate \<Rightarrow> error + (event \<times> ctl)" where
  "loop_body self fr d st =
     (case gen_region self fr d of
        Inl e \<Rightarrow> Inl e
      | Inr (nlt, nbr, nsize_2) \<Rightarrow>
          if overlap_test fr nlt nbr
            then Inr (Disjoint, Continue (add_data False nlt nbr st))
          else
            let iou = iou_step fr nlt nbr nsize_2;
                st' = iou_test self iou nlt nbr st
            in if snd st' = (0, 0) then Inr (Scored iou, Break st')
               else Inr (Scored iou, Continue st'))"

text \<open>
  The loop has no bound: it is a partial function, \<open>None\<close> when it runs forever. \<open>rnd i\<close>
  is the draw of iteration \<open>i\<close>; the trace collects the event of every iteration, so its
  length is the number of draws performed.
\<close>

partial_function (option) sample_loop ::
  "('img, 'lbl) SimpleSampler \<Rightarrow> frame \<Rightarrow> (nat \<Rightarrow> draw) \<Rightarrow> nat \<Rightarrow> event list \<Rightarrow> lstate
     \<Rightarrow> (error + (lstate \<times> event list)) option" where
  "sample_loop self fr rnd i tr st =
     (case loop_body self fr (rnd i) st of
        Inl e \<Rightarrow> Some (Inl e)
      | Inr (ev, c) \<Rightarrow>
          (case c of
             Continue st' \<Rightarrow> sample_loop self fr rnd (i + 1) (tr @ [ev]) st'
           | Break st' \<Rightarrow> Some (Inr (st', tr @ [ev]))))"

definition SimpleSampler_call ::
  "('img, 'lbl) SimpleSampler \<Rightarrow> 'img \<Rightarrow> bbox \<Rightarrow> (nat \<Rightarrow> draw)
     \<Rightarrow> (error + (('img, 'lbl) RegionDataset \<times> event list)) option" where
  "SimpleSampler_call self im bbox rnd =
     (case sample_loop self (call_frame self bbox) rnd 0 [] ([], num self) of
        None \<Rightarrow> None
      | Some (Inl e) \<Rightarrow> Some (Inl e)
      | Some (Inr ((data, remain), tr)) \<Rightarrow>
          Some (Inr (\<lparr> img = im, crops = data,
                       transforms = s_transforms self,
                       target_transforms_pos = s_target_transforms_pos self,
                       target_transforms_neg = s_target_transforms_neg self \<rparr>, tr)))"

section \<open>Folder\<close>

text \<open>
  The file system the constructor looks at: a path names a regular file with its text, a
  directory with the names it lists, or nothing.
\<close>

datatype node = RegularFile string | Directory "string list"

type_synonym filesystem = "string \<Rightarrow> node option"

definition isdir :: "filesystem \<Rightarrow> string \<Rightarrow> bool" where
  "isdir f p = (case f p of Some (Directory _) \<Rightarrow> True | _ \<Rightarrow> False)"

definition isfile :: "filesystem \<Rightarrow> string \<Rightarrow> bool" where
  "isfile f p = (case f p of Some (RegularFile _) \<Rightarrow> True | _ \<Rightarrow> False)"

definition listdir :: "filesystem \<Rightarrow> string \<Rightarrow> string list" where
  "listdir f p = (case f p of Some (Directory names) \<Rightarrow> names | _ \<Rightarrow> [])"

definition read_text :: "filesystem \<Rightarrow> string \<Rightarrow> string" where
  "read_text f p = (case f p of Some (RegularFile txt) \<Rightarrow> txt | _ \<Rightarrow> [])"

text \<open>\<^verbatim>\<open>os.path.join\<close> of two components (POSIX).\<close>

definition path_join :: "string \<Rightarrow> string \<Rightarrow> string" where
  "path_join a b =
     (if b \<noteq> [] \<and> hd b = CHR ''/'' then b
      else if a = [] \<or> last a = CHR ''/'' then a @ b
      else a @ ''/'' @ b)"

text \<open>
  What \<^verbatim>\<open>numpy.genfromtxt\<close> returns: it squeezes its result, so a file of one record
  gives a 1-d array and a file of one number a 0-d array. Iterating a 2-d array yields
  its rows, iterating a 1-d array yields scalars, iterating a 0-d array raises
  \<^verbatim>\<open>TypeError\<close>.
\<close>

datatype ndarray = Array0 real | Array1 "real list" | Array2 "real list list"

datatype gt_item = Scalar real | Row "real list"

fun iter_array :: "ndarray \<Rightarrow> error + gt_item list" where
  "iter_array (Array0 x) = Inl TypeError"
| "iter_array (Array1 xs) = Inr (map Scalar xs)"
| "iter_array (Array2 rows) = Inr (map Row rows)"

text \<open>
  The collaborators of the constructor that are not in \<^verbatim>\<open>data.py\<close>:
  \<^verbatim>\<open>os.path.abspath(os.path.expanduser(.))\<close>, the file system, torchvision's
  \<^verbatim>\<open>IMG_EXTENSIONS\<close> and the parser \<^verbatim>\<open>numpy.genfromtxt(., delimiter=',')\<close>, which
  returns an array or raises: on records of unequal length it raises \<^verbatim>\<open>ValueError\<close>.
\<close>

record environment =
  abspath_expanduser :: "string \<Rightarrow> string"
  fs :: filesystem
  IMG_EXTENSIONS :: "string list"
  genfromtxt :: "string \<Rightarrow> error + ndarray"

text \<open>The slices \<^verbatim>\<open>gt[0::2]\<close> and \<^verbatim>\<open>gt[1::2]\<close>.\<close>

fun step2 :: "'a list \<Rightarrow> 'a list" where
  "step2 [] = []"
| "step2 [x] = [x]"
| "step2 (x # y # zs) = x # step2 zs"

text \<open>
  \<^verbatim>\<open>min(*pts)\<close> and \<^verbatim>\<open>max(*pts)\<close>: with no argument, and with a single argument that is a
  number and not an iterable, Python raises \<^verbatim>\<open>TypeError\<close>.
\<close>

fun py_min :: "real list \<Rightarrow> error + real" where
  "py_min (x # y # zs) = Inr (fold min (y # zs) x)"
| "py_min _ = Inl TypeError"

fun py_max :: "real list \<Rightarrow> error + real" where
  "py_max (x # y # zs) = Inr (fold max (y # zs) x)"
| "py_max _ = Inl TypeError"

text \<open>\<^verbatim>\<open># gen bbox\<close>; slicing a numpy scalar raises \<^verbatim>\<open>IndexError\<close>.\<close>

fun gen_bbox :: "gt_item \<Rightarrow> error + bbox" where
  "gen_bbox (Scalar x) = Inl IndexError"
| "gen_bbox (Row gt) =
     (let pts_x = step2 gt; pts_y = step2 (tl gt)
      in case py_min pts_x of Inl e \<Rightarrow> Inl e | Inr min_x \<Rightarrow>
         (case py_min pts_y of Inl e \<Rightarrow> Inl e | Inr min_y \<Rightarrow>
         (case py_max pts_x of Inl e \<Rightarrow> Inl e | Inr max_x \<Rightarrow>
         (case py_max pts_y of Inl e \<Rightarrow> Inl e | Inr max_y \<Rightarrow>
            Inr (min_x, min_y, max_x, max_y)))))"

text \<open>The loop \<^verbatim>\<open>for fn, gt in zip(fnames, gtruth)\<close>, appending to \<^verbatim>\<open>self.data\<close>.\<close>

fun Folder_loop ::
  "string \<Rightarrow> (string \<times> gt_item) list \<Rightarrow> (string \<times> bbox) list \<Rightarrow> error + (string \<times> bbox) list" where
  "Folder_loop folder [] acc = Inr acc"
| "Folder_loop folder ((fn, gt) # rest) acc =
     (case gen_bbox gt of
        Inl e \<Rightarrow> Inl e
      | Inr bbox \<Rightarrow> Folder_loop folder rest (acc @ [(path_join folder fn, bbox)]))"

text \<open>\<^verbatim>\<open># load file names\<close>: the names of the directory that end with an image extension,
  sorted.\<close>

definition image_fnames :: "environment \<Rightarrow> string \<Rightarrow> string list" where
  "image_fnames env folder =
     sort (filter (\<lambda>f. list_ex (\<lambda>ext. suffix ext f) (IMG_EXTENSIONS env)) (listdir (fs env) folder))"

record 'img Folder =
  loader :: "string \<Rightarrow> 'img"
  data :: "(string \<times> bbox) list"

definition Folder_init ::
  "environment \<Rightarrow> string \<Rightarrow> (string \<Rightarrow> 'img) \<Rightarrow> error + 'img Folder" where
  "Folder_init env folder0 ld =
     (let folder = abspath_expanduser env folder0
      in if \<not> isdir (fs env) folder then Inl (ValueError (''Not a valid foler: '' @ folder))
         else
           let fn_gtruth = path_join folder ''groundtruth.txt''
           in if \<not> isfile (fs env) fn_gtruth
                then Inl (ValueError (''Groundtruth file not found: '' @ fn_gtruth))
              else
                let fnames = image_fnames env folder
                in case genfromtxt env (read_text (fs env) fn_gtruth) of
                     Inl e \<Rightarrow> Inl e
                   | Inr gtruth \<Rightarrow>
                       (case iter_array gtruth of
                          Inl e \<Rightarrow> Inl e
                        | Inr items \<Rightarrow>
                            (case Folder_loop folder (zip fnames items) [] of
                               Inl e \<Rightarrow> Inl e
                             | Inr d \<Rightarrow> Inr \<lparr> loader = ld, data = d \<rparr>)))"


definition Folder_getitem :: "'img Folder \<Rightarrow> int \<Rightarrow> error + ('img \<times> bbox)" where
  "Folder_getitem self index =
     (case list_getitem (data self) index of
        Inl e \<Rightarrow> Inl e
      | Inr (fn, gt) \<Rightarrow> Inr (loader self fn, gt))"

section \<open>Auxiliary definitions for the properties\<close>

text \<open>
  The quota invariant of the sampling loop: the entries appended so far and the counters
  still to fill add up to the configured numbers.
\<close>

definition quota_inv :: "int \<times> int \<Rightarrow> lstate \<Rightarrow> bool" where
  "quota_inv n st \<longleftrightarrow>
     int (length (filter fst (fst st))) + fst (snd st) = fst n \<and>
     int (length (filter (\<lambda>c. \<not> fst c) (fst st))) + snd (snd st) = snd n"

text \<open>
  The geometric overlap area of two boxes as the specification words it: the product of
  the side lengths of the intersection rectangle, zero where the rectangle is empty. It
  is not part of the program.
\<close>

definition geometric_overlap_area :: "vec2 \<Rightarrow> vec2 \<Rightarrow> vec2 \<Rightarrow> vec2 \<Rightarrow> real" where
  "geometric_overlap_area lt0 br0 nlt nbr =
     max 0 (min (fst br0) (fst nbr) - max (fst lt0) (fst nlt)) *
     max 0 (min (snd br0) (snd nbr) - max (snd lt0) (snd nlt))"

subsection \<open>Concrete inputs\<close>

text \<open>
  Samplers built by the constructor with the default thresholds and noise scales: one
  wanting a positive and a negative sample, one with \<^verbatim>\<open>num=[0, 0]\<close>, and one whose initial
  box is a single point.
\<close>

definition smp_ex :: "(unit, unit) SimpleSampler" where
  "smp_ex = SimpleSampler_init (0, 0, 10, 10) None None None (1, 1) (0.7, 0.5) (0.3, 0.3) 0.5"

definition smp_none :: "(unit, unit) SimpleSampler" where
  "smp_none = SimpleSampler_init (0, 0, 10, 10) None None None (0, 0) (0.7, 0.5) (0.3, 0.3) 0.5"

definition smp_point :: "(unit, unit) SimpleSampler" where
  "smp_point = SimpleSampler_init (3, 3, 3, 3) None None None (1, 1) (0.7, 0.5) (0.3, 0.3) 0.5"

text \<open>
  Draws, for the reference box \<open>(0, 0, 10, 10)\<close> (centre \<open>(5, 5)\<close>, translation sigma
  \<open>(3, 3)\<close>): the candidate on the reference box itself, one far to the right
  \<open>(30, 0, 40, 10)\<close>, the box \<open>(5, 5, 15, 15)\<close>, and the boxes \<open>(10, 0, 20, 10)\<close> and
  \<open>(0, 10, 10, 20)\<close> that share only an edge with the reference box.
\<close>

definition d_centre :: draw where
  "d_centre = \<lparr> z_ctr = (0, 0), z_s = 0 \<rparr>"

definition d_far :: draw where
  "d_far = \<lparr> z_ctr = (10, 0), z_s = 0 \<rparr>"

definition d_corner :: draw where
  "d_corner = \<lparr> z_ctr = (5 / 3, 5 / 3), z_s = 0 \<rparr>"

definition d_touch :: draw where
  "d_touch = \<lparr> z_ctr = (10 / 3, 0), z_s = 0 \<rparr>"

definition d_above :: draw where
  "d_above = \<lparr> z_ctr = (0, 10 / 3), z_s = 0 \<rparr>"

definition rnd_ex :: "nat \<Rightarrow> draw" where
  "rnd_ex i = (if i = 1 then d_far else d_centre)"

definition rnd_far2 :: "nat \<Rightarrow> draw" where
  "rnd_far2 i = (if i < 2 then d_far else d_centre)"

definition view_ex :: "(string, unit) RegionDataset" where
  "view_ex = \<lparr> img = ''frame'', crops = [(True, 0, 0, 10, 10), (False, 30, 0, 40, 10)],
               transforms = None, target_transforms_pos = None, target_transforms_neg = None \<rparr>"

definition crop_ex :: "string \<Rightarrow> bbox \<Rightarrow> string" where
  "crop_ex im b = (if b = (30, 0, 40, 10) then im @ ''[30:40,0:10]'' else im @ ''[..]'')"

text \<open>
  A sequence directory \<open>/data/seq\<close> with three image files and a ground-truth file of two
  records, each the four corners of a box.
\<close>

definition gt_text :: string where
  "gt_text = ''0,0,10,0,10,10,0,10'' @ [CHR 0x0A] @ ''1,2,11,2,11,12,1,12'' @ [CHR 0x0A]"

definition env_ex :: environment where
  "env_ex = \<lparr> abspath_expanduser = (\<lambda>p. ''/data/'' @ p),
              fs = (\<lambda>p. if p = ''/data/seq''
                            then Some (Directory [''b.jpg'', ''groundtruth.txt'', ''c.jpg'', ''a.jpg''])
                          else if p = ''/data/seq/groundtruth.txt'' then Some (RegularFile gt_text)
                          else None),
              IMG_EXTENSIONS = [''.jpg'', ''.png''],
              genfromtxt = (\<lambda>txt. if txt = gt_text
                                      then Inr (Array2 [[0, 0, 10, 0, 10, 10, 0, 10],
                                                        [1, 2, 11, 2, 11, 12, 1, 12]])
                                    else Inl (ValueError ''Some errors were detected !'')) \<rparr>"

text \<open>
  The same directory with a ground-truth file whose second record is one value short,
  which \<^verbatim>\<open>numpy.genfromtxt\<close> rejects with a \<^verbatim>\<open>ValueError\<close>, and with a ground-truth file of
  a single record, which \<^verbatim>\<open>numpy.genfromtxt\<close> returns as a 1-d array of its eight values.
\<close>

definition gt_ragged :: string where
  "gt_ragged = ''0,0,10,0,10,10,0,10'' @ [CHR 0x0A] @ ''1,2,11,2,11,12,1'' @ [CHR 0x0A]"

definition env_ragged :: environment where
  "env_ragged = env_ex \<lparr> fs := (fs env_ex) (''/data/seq/groundtruth.txt'' \<mapsto> RegularFile gt_ragged) \<rparr>"



section \<open>Properties of the sampling loop\<close>

lemmas ex_defs = smp_ex_def d_centre_def d_far_def d_corner_def rnd_ex_def
  SimpleSampler_init_def call_frame_def prod0_def

lemmas body_defs = loop_body_def gen_region_def normal_def COEF_SCALE_def overlap_test_def
  iou_step_def iou_test_def np_divide_def Let_def

text \<open>
  Partial correctness of the loop: an invariant kept by every iteration that continues
  holds when the loop is left, and the loop is left only by an iteration that breaks.
\<close>

lemma sample_loop_rule:
  assumes run: "sample_loop self fr rnd i tr st = Some (Inr (st', tr'))"
    and init: "I i tr st"
    and step: "\<And>i tr st ev st2. I i tr st \<Longrightarrow> loop_body self fr (rnd i) st = Inr (ev, Continue st2)
                 \<Longrightarrow> I (i + 1) (tr @ [ev]) st2"
    and fin: "\<And>i tr st ev st2. I i tr st \<Longrightarrow> loop_body self fr (rnd i) st = Inr (ev, Break st2)
                 \<Longrightarrow> Q st2 (tr @ [ev])"
  shows "Q st' tr'"
proof -
  have "s = self \<longrightarrow> f = fr \<longrightarrow> r = rnd \<longrightarrow> y = Inr (st', tr') \<longrightarrow> I i tr st \<longrightarrow> Q st' tr'"
    if "sample_loop s f r i tr st = Some y" for s f r y
    using that
  proof (induction s f r i tr st y rule: sample_loop.raw_induct[rotated 1, consumes 1])
    case (1 loop s f r i tr st y)
    show ?case
    proof (intro impI)
      assume eqs: "s = self" "f = fr" "r = rnd" and y: "y = Inr (st', tr')" and inv: "I i tr st"
      show "Q st' tr'"
      proof (cases "loop_body self fr (rnd i) st")
        case (Inl e)
        with 1(2) eqs y show ?thesis by simp
      next
        case (Inr p)
        obtain ev c where p: "p = (ev, c)" by (cases p)
        show ?thesis
        proof (cases c)
          case (Continue st2)
          with Inr p 1(2) eqs have "loop self fr rnd (i + 1) (tr @ [ev]) st2 = Some y" by simp
          moreover have "I (i + 1) (tr @ [ev]) st2" using step[OF inv] Inr p Continue by simp
          ultimately show ?thesis using 1(1) y by blast
        next
          case (Break st2)
          with Inr p 1(2) eqs y have "st2 = st'" "tr @ [ev] = tr'" by simp_all
          with fin[OF inv] Inr p Break show ?thesis by simp
        qed
      qed
    qed
  qed
  with run init show ?thesis by blast
qed

lemma add_data_inv: "quota_inv n st \<Longrightarrow> quota_inv n (add_data is_pos nlt nbr st)"
  by (cases st; cases "snd st") (auto simp: quota_inv_def Let_def)

lemma iou_test_inv: "quota_inv n st \<Longrightarrow> quota_inv n (iou_test self iou nlt nbr st)"
  by (simp add: iou_test_def add_data_inv)

lemma loop_body_Continue_inv:
  assumes "quota_inv n st" "loop_body self fr d st = Inr (ev, Continue st2)"
  shows "quota_inv n st2"
  using assms
  by (auto simp: loop_body_def Let_def add_data_inv iou_test_inv
           split: sum.splits prod.splits if_splits)

lemma loop_body_Break_inv:
  assumes "quota_inv n st" "loop_body self fr d st = Inr (ev, Break st2)"
  shows "quota_inv n st2 \<and> snd st2 = (0, 0)"
  using assms
  by (auto simp: loop_body_def Let_def add_data_inv iou_test_inv
           split: sum.splits prod.splits if_splits)

lemma length_filter_split: "length (filter P xs) + length (filter (\<lambda>x. \<not> P x) xs) = length xs"
  by (induction xs) auto

text \<open>
  Claim C1. Whenever a call of the sampler returns, for any image, reference box and
  random draws, the candidate list of the returned view has \<open>num_pos + num_neg\<close> entries,
  exactly \<open>num_pos\<close> of them flagged positive and exactly \<open>num_neg\<close> flagged negative.
\<close>

theorem sample_counts:
  assumes "SimpleSampler_call self im bbox rnd = Some (Inr (view, tr))"
  shows "int (length (crops view)) = fst (num self) + snd (num self)
       \<and> int (length (filter fst (crops view))) = fst (num self)
       \<and> int (length (filter (\<lambda>c. \<not> fst c) (crops view))) = snd (num self)"
proof -
  from assms obtain dat rm where
    run: "sample_loop self (call_frame self bbox) rnd 0 [] ([], num self) = Some (Inr ((dat, rm), tr))"
    and view: "crops view = dat"
    by (auto simp: SimpleSampler_call_def split: option.splits sum.splits prod.splits)
  have init: "quota_inv (num self) ([], num self)" by (simp add: quota_inv_def)
  have "quota_inv (num self) (dat, rm) \<and> snd (dat, rm) = (0, 0)"
    by (rule sample_loop_rule[OF run, where I = "\<lambda>i tr st. quota_inv (num self) st"
         and Q = "\<lambda>st tr. quota_inv (num self) st \<and> snd st = (0, 0)"])
       (use init loop_body_Continue_inv loop_body_Break_inv in \<open>blast+\<close>)
  then have p: "int (length (filter fst dat)) = fst (num self)"
    and q: "int (length (filter (\<lambda>c. \<not> fst c) dat)) = snd (num self)"
    by (auto simp: quota_inv_def)
  from p q length_filter_split[of fst dat] view show ?thesis by simp
qed

text \<open>
  A run of three draws that returns: the first candidate is accepted as positive, the
  second is disjoint and fills the negative quota, the third reaches the loop breaker.
\<close>

theorem sample_counts_witness:
  "SimpleSampler_call smp_ex () (0, 0, 10, 10) rnd_ex =
     Some (Inr (\<lparr> img = (), crops = [(True, 0, 0, 10, 10), (False, 30, 0, 40, 10)],
                  transforms = None, target_transforms_pos = None, target_transforms_neg = None \<rparr>,
                [Scored (Finite 10), Disjoint, Scored (Finite 10)]))
   \<and> int (length [(True, 0 :: real, 0 :: real, 10 :: real, 10 :: real), (False, 30, 0, 40, 10)])
       = fst (num smp_ex) + snd (num smp_ex)"
proof -
  have run: "SimpleSampler_call smp_ex () (0, 0, 10, 10) rnd_ex =
     Some (Inr (\<lparr> img = (), crops = [(True, 0, 0, 10, 10), (False, 30, 0, 40, 10)],
                  transforms = None, target_transforms_pos = None, target_transforms_neg = None \<rparr>,
                [Scored (Finite 10), Disjoint, Scored (Finite 10)]))"
    by (simp add: SimpleSampler_call_def sample_loop.simps ex_defs body_defs)
  from sample_counts[OF run] run show ?thesis by simp
qed

text \<open>
  Claim C2. The scenario of the specification: reference box \<open>(0, 0, 10, 10)\<close>, candidate
  box \<open>(5, 5, 15, 15)\<close> with half-size \<open>(5, 5)\<close>, thresholds \<open>0.7\<close> and \<open>0.5\<close>. The program
  takes the mean side length \<open>10\<close> of the reference box where its area \<open>100\<close> is meant, so
  the union it computes is \<open>10 + 100 - 25 = 85\<close> and its IoU expression has the value
  \<open>25/85\<close>, which is not \<open>25/175\<close>; the candidate is appended as a negative.
\<close>

theorem iou_scenario_code_value:
  "gen_region smp_ex (call_frame smp_ex (0, 0, 10, 10)) d_corner = Inr ((5, 5), (15, 15), (5, 5))
   \<and> area (call_frame smp_ex (0, 0, 10, 10)) = 10
   \<and> loop_body smp_ex (call_frame smp_ex (0, 0, 10, 10)) d_corner ([], (1, 1)) =
       Inr (Scored (Finite (25 / 85)), Continue ([(False, 5, 5, 15, 15)], (1, 0)))
   \<and> (25 / 85 :: real) \<noteq> 25 / 175"
  by (simp add: ex_defs body_defs)

text \<open>
  Claim C3, as stated, fails: the candidate \<open>(10, 0, 20, 10)\<close> shares only an edge with
  the reference box \<open>(0, 0, 10, 10)\<close>, its geometric overlap area is zero, yet the overlap
  test does not reject it (the comparisons are strict) and the IoU expression is
  evaluated, to \<open>0\<close>.
\<close>

theorem touching_boxes_counterexample:
  "gen_region smp_ex (call_frame smp_ex (0, 0, 10, 10)) d_touch = Inr ((10, 0), (20, 10), (5, 5))
   \<and> geometric_overlap_area (0, 0) (10, 10) (10, 0) (20, 10) = 0
   \<and> \<not> overlap_test (call_frame smp_ex (0, 0, 10, 10)) (10, 0) (20, 10)
   \<and> loop_body smp_ex (call_frame smp_ex (0, 0, 10, 10)) d_touch ([], (1, 1)) =
       Inr (Scored (Finite 0), Continue ([(False, 10, 0, 20, 10)], (1, 0)))"
  by (simp add: d_touch_def ex_defs body_defs geometric_overlap_area_def)

text \<open>
  Claim C3, amended. For every reference box and every candidate box that lies strictly
  beyond the reference box on some axis (reference max below candidate min, or reference
  min above candidate max), the overlap test rejects the candidate, the iteration hands it
  to \<^verbatim>\<open>add_data\<close> as a negative and continues without evaluating the IoU expression; the
  geometric overlap area of such a pair is zero. For every pair of proper boxes (min not
  above max on both axes) with zero geometric overlap area that is not separated in this
  way, the overlap test does not reject the candidate and the IoU expression is
  evaluated, with an intersection area of zero.
\<close>

theorem separated_candidate_skips_iou:
  assumes gen: "gen_region self fr d = Inr (nlt, nbr, nsz)"
  shows "(fst (br fr) < fst nlt \<or> snd (br fr) < snd nlt
            \<or> fst (lt fr) > fst nbr \<or> snd (lt fr) > snd nbr \<longrightarrow>
          overlap_test fr nlt nbr
          \<and> loop_body self fr d st = Inr (Disjoint, Continue (add_data False nlt nbr st))
          \<and> geometric_overlap_area (lt fr) (br fr) nlt nbr = 0)
       \<and> (\<not> (fst (br fr) < fst nlt \<or> snd (br fr) < snd nlt
              \<or> fst (lt fr) > fst nbr \<or> snd (lt fr) > snd nbr)
          \<and> fst (lt fr) \<le> fst (br fr) \<and> snd (lt fr) \<le> snd (br fr)
          \<and> fst nlt \<le> fst nbr \<and> snd nlt \<le> snd nbr
          \<and> geometric_overlap_area (lt fr) (br fr) nlt nbr = 0 \<longrightarrow>
          \<not> overlap_test fr nlt nbr
          \<and> prod2 (vsub (minimum (br fr) nbr) (maximum (lt fr) nlt)) = 0
          \<and> iou_step fr nlt nbr nsz = np_divide 0 (area fr + prod2 nsz * 4)
          \<and> (\<exists>c. loop_body self fr d st = Inr (Scored (iou_step fr nlt nbr nsz), c)))"
proof -
  have a: "overlap_test fr nlt nbr
          \<and> loop_body self fr d st = Inr (Disjoint, Continue (add_data False nlt nbr st))
          \<and> geometric_overlap_area (lt fr) (br fr) nlt nbr = 0"
    if sep: "fst (br fr) < fst nlt \<or> snd (br fr) < snd nlt
            \<or> fst (lt fr) > fst nbr \<or> snd (lt fr) > snd nbr"
  proof -
  from sep have ot: "overlap_test fr nlt nbr"
    by (cases "br fr"; cases "lt fr"; cases nlt; cases nbr) (auto simp: overlap_test_def)
  from sep have "geometric_overlap_area (lt fr) (br fr) nlt nbr = 0"
    by (auto simp: geometric_overlap_area_def max_def min_def)
  with ot gen show ?thesis
    by (simp add: loop_body_def)
  qed
  have b: "\<not> overlap_test fr nlt nbr
          \<and> prod2 (vsub (minimum (br fr) nbr) (maximum (lt fr) nlt)) = 0
          \<and> iou_step fr nlt nbr nsz = np_divide 0 (area fr + prod2 nsz * 4)
          \<and> (\<exists>c. loop_body self fr d st = Inr (Scored (iou_step fr nlt nbr nsz), c))"
    if h: "\<not> (fst (br fr) < fst nlt \<or> snd (br fr) < snd nlt
              \<or> fst (lt fr) > fst nbr \<or> snd (lt fr) > snd nbr)
          \<and> fst (lt fr) \<le> fst (br fr) \<and> snd (lt fr) \<le> snd (br fr)
          \<and> fst nlt \<le> fst nbr \<and> snd nlt \<le> snd nbr
          \<and> geometric_overlap_area (lt fr) (br fr) nlt nbr = 0"
  proof -
  obtain bx by' where b: "br fr = (bx, by')" by (cases "br fr")
  obtain lx ly where l: "lt fr = (lx, ly)" by (cases "lt fr")
  obtain nx ny where n: "nlt = (nx, ny)" by (cases nlt)
  obtain mx my where m: "nbr = (mx, my)" by (cases nbr)
  from h have ot: "\<not> overlap_test fr nlt nbr"
    by (auto simp: overlap_test_def b l n m)
  from h have sides: "0 \<le> min bx mx - max lx nx" "0 \<le> min by' my - max ly ny"
    by (auto simp: b l n m)
  from sides have "max 0 (min bx mx - max lx nx) = min bx mx - max lx nx"
    "max 0 (min by' my - max ly ny) = min by' my - max ly ny"
    by simp_all
  moreover from h have "geometric_overlap_area (lt fr) (br fr) nlt nbr = 0"
    by blast
  then have "max 0 (min bx mx - max lx nx) * max 0 (min by' my - max ly ny) = 0"
    by (simp only: geometric_overlap_area_def b l n m fst_conv snd_conv)
  ultimately have "(min bx mx - max lx nx) * (min by' my - max ly ny) = 0"
    by simp
  then have over: "prod2 (vsub (minimum (br fr) nbr) (maximum (lt fr) nlt)) = 0"
    by (simp add: b l n m)
  then have iou: "iou_step fr nlt nbr nsz = np_divide 0 (area fr + prod2 nsz * 4)"
    by (simp add: iou_step_def Let_def)
  from gen ot have "\<exists>c. loop_body self fr d st = Inr (Scored (iou_step fr nlt nbr nsz), c)"
    by (simp add: loop_body_def Let_def)
  with ot over iou show ?thesis
    by blast
  qed
  from a b show ?thesis by blast
qed

text \<open>
  A candidate far to the right of the reference box, and one that shares only the upper
  edge \<open>y = 10\<close> with it.
\<close>

theorem separated_candidate_skips_iou_witness:
  "loop_body smp_ex (call_frame smp_ex (0, 0, 10, 10)) d_far ([], (1, 1)) =
     Inr (Disjoint, Continue ([(False, 30, 0, 40, 10)], (1, 0)))
   \<and> geometric_overlap_area (0, 0) (10, 10) (30, 0) (40, 10) = 0
   \<and> gen_region smp_ex (call_frame smp_ex (0, 0, 10, 10)) d_above = Inr ((0, 10), (10, 20), (5, 5))
   \<and> geometric_overlap_area (0, 0) (10, 10) (0, 10) (10, 20) = 0
   \<and> \<not> overlap_test (call_frame smp_ex (0, 0, 10, 10)) (0, 10) (10, 20)
   \<and> iou_step (call_frame smp_ex (0, 0, 10, 10)) (0, 10) (10, 20) (5, 5) = Finite 0"
proof -
  let ?fr = "call_frame smp_ex (0, 0, 10, 10)"
  have gen: "gen_region smp_ex ?fr d_far = Inr ((30, 0), (40, 10), (5, 5))"
    by (simp add: ex_defs body_defs)
  have sep: "fst (br ?fr) < fst (30 :: real, 0 :: real)
      \<or> snd (br ?fr) < snd (30 :: real, 0 :: real)
      \<or> fst (lt ?fr) > fst (40 :: real, 10 :: real)
      \<or> snd (lt ?fr) > snd (40 :: real, 10 :: real)"
    by (simp add: ex_defs)
  have gen2: "gen_region smp_ex ?fr d_above = Inr ((0, 10), (10, 20), (5, 5))"
    by (simp add: d_above_def ex_defs body_defs)
  have touch: "\<not> (fst (br ?fr) < fst (0 :: real, 10 :: real)
        \<or> snd (br ?fr) < snd (0 :: real, 10 :: real)
        \<or> fst (lt ?fr) > fst (10 :: real, 20 :: real)
        \<or> snd (lt ?fr) > snd (10 :: real, 20 :: real))
      \<and> fst (lt ?fr) \<le> fst (br ?fr) \<and> snd (lt ?fr) \<le> snd (br ?fr)
      \<and> fst (0 :: real, 10 :: real) \<le> fst (10 :: real, 20 :: real)
      \<and> snd (0 :: real, 10 :: real) \<le> snd (10 :: real, 20 :: real)
      \<and> geometric_overlap_area (lt ?fr) (br ?fr) (0, 10) (10, 20) = 0"
    by (simp add: ex_defs geometric_overlap_area_def)
  have val: "np_divide 0 (area ?fr + prod2 (5, 5) * 4) = Finite 0"
    by (simp add: ex_defs np_divide_def)
  have geo: "geometric_overlap_area (0, 0) (10, 10) (0, 10) (10, 20) = 0"
    by (simp add: geometric_overlap_area_def)
  from separated_candidate_skips_iou[OF gen, of "([], (1, 1))"] sep
    separated_candidate_skips_iou[OF gen2, of "([], (1, 1))"] touch val gen2 geo
  show ?thesis
    by (simp add: ex_defs)
qed

text \<open>
  Claim C4, as stated, fails: with a reference box and an initial box of zero size the
  union area is zero, and the IoU expression yields NaN, not \<open>0\<close>; the candidate is
  neither positive nor negative and the state is left as it was.
\<close>

theorem zero_union_counterexample:
  "loop_body smp_point (call_frame smp_point (3, 3, 3, 3)) d_centre ([], (1, 1)) =
     Inr (Scored NaN, Continue ([], (1, 1)))"
  by (simp add: smp_point_def ex_defs body_defs)

text \<open>
  Claim C4, amended. Whenever the computed union area is zero, the IoU step raises no
  fault and yields NaN when the intersection area is zero as well, and an infinity of the
  sign of the intersection area otherwise, never \<open>0\<close>; a NaN fails both threshold
  comparisons, so the candidate is discarded and no quota is consumed.
\<close>

theorem zero_union_iou:
  assumes "area fr + prod2 nsz * 4 - prod2 (vsub (minimum (br fr) nbr) (maximum (lt fr) nlt)) = 0"
  shows "iou_step fr nlt nbr nsz =
           (if prod2 (vsub (minimum (br fr) nbr) (maximum (lt fr) nlt)) = 0 then NaN
            else if 0 < prod2 (vsub (minimum (br fr) nbr) (maximum (lt fr) nlt)) then PosInf
            else NegInf)
       \<and> (prod2 (vsub (minimum (br fr) nbr) (maximum (lt fr) nlt)) = 0 \<longrightarrow>
            iou_test self (iou_step fr nlt nbr nsz) nlt nbr st = st)"
  using assms by (simp add: iou_step_def np_divide_def iou_test_def Let_def)

theorem zero_union_iou_witness:
  "iou_step (call_frame smp_point (3, 3, 3, 3)) (3, 3) (3, 3) (0, 0) = NaN
   \<and> iou_test smp_point (iou_step (call_frame smp_point (3, 3, 3, 3)) (3, 3) (3, 3) (0, 0))
        (3, 3) (3, 3) ([], (1, 1)) = ([], (1, 1))"
proof -
  let ?fr = "call_frame smp_point (3, 3, 3, 3)"
  have over: "prod2 (vsub (minimum (br ?fr) (3, 3)) (maximum (lt ?fr) (3, 3))) = 0"
    by (simp add: smp_point_def ex_defs)
  have union: "area ?fr + prod2 (0, 0) * 4
      - prod2 (vsub (minimum (br ?fr) (3, 3)) (maximum (lt ?fr) (3, 3))) = 0"
    by (simp add: smp_point_def ex_defs)
  from zero_union_iou[OF union, of smp_point "([], (1, 1))"] over show ?thesis
    by (simp add: iou_test_def)
qed

text \<open>
  Claim C5, as stated, fails: a sampler constructed on the initial box \<open>(0, 0, 10, 10)\<close>
  and called on the box \<open>(0, 0, 20, 40)\<close> forms, with no scale jitter, a candidate of
  half-size \<open>(5, 5)\<close>, half the size of the initial box, and not \<open>(10, 20)\<close>, half the size
  of the box of the call.
\<close>

theorem call_box_size_counterexample:
  "gen_region smp_ex (call_frame smp_ex (0, 0, 20, 40)) d_centre = Inr ((5, 15), (15, 25), (5, 5))
   \<and> (5, 5) \<noteq> sdiv (vsub (20, 40) (0, 0)) 2"
  by (simp add: ex_defs body_defs)

text \<open>
  Claim C5, amended. On every call the half-size of a candidate is half the size of the
  initial box given at construction, times the scale jitter; it is the same for every
  box argument, which only gives the centre, the translation noise and the reference
  area.
\<close>

theorem candidate_size_from_init_bbox:
  assumes self: "self = SimpleSampler_init init_bbox tr tp tn n th sxy ss"
    and gen: "gen_region self (call_frame self bbox) d = Inr (nlt, nbr, nsz)"
  shows "nsz = sdiv (smul (vsub (snd (reshape22 init_bbox)) (fst (reshape22 init_bbox)))
                          (COEF_SCALE powr (ss * z_s d))) 2
       \<and> vsub nbr nlt = smul (vsub (snd (reshape22 init_bbox)) (fst (reshape22 init_bbox)))
                          (COEF_SCALE powr (ss * z_s d))"
proof -
  obtain x0 y0 x1 y1 where ib: "init_bbox = (x0, y0, x1, y1)" by (cases init_bbox) auto
  from gen obtain nctr where
    nsz: "nsz = sdiv (smul (isize self) (COEF_SCALE powr (ss * z_s d))) 2"
    and nlt: "nlt = vsub nctr nsz" and nbr: "nbr = vadd nctr nsz"
    by (auto simp: gen_region_def normal_def Let_def self SimpleSampler_init_def
             split: sum.splits if_splits prod.splits)
  have isz: "isize self = (x1 - x0, y1 - y0)" by (simp add: self SimpleSampler_init_def ib)
  obtain cx cy where c: "nctr = (cx, cy)" by (cases nctr)
  show ?thesis using nsz nlt nbr by (simp add: isz ib c)
qed

theorem candidate_size_from_init_bbox_witness:
  "gen_region smp_ex (call_frame smp_ex (0, 0, 20, 40)) d_corner = Inr ((20, 30), (30, 40), (5, 5))
   \<and> vsub (30, 40) (20, 30) = smul (10, 10) (COEF_SCALE powr (0.5 * 0))"
proof -
  have gen: "gen_region smp_ex (call_frame smp_ex (0, 0, 20, 40)) d_corner
      = Inr ((20, 30), (30, 40), (5, 5))"
    by (simp add: ex_defs body_defs)
  from candidate_size_from_init_bbox[OF smp_ex_def gen] gen show ?thesis
    by (simp add: ex_defs)
qed

text \<open>Once both counters are zero, neither \<^verbatim>\<open>add_data\<close> nor the IoU test changes the state.\<close>

lemma add_data_filled: "snd st = (0, 0) \<Longrightarrow> add_data is_pos nlt nbr st = st"
  by (cases st) (auto simp: Let_def)

lemma iou_test_filled: "snd st = (0, 0) \<Longrightarrow> iou_test self iou nlt nbr st = st"
  by (simp add: iou_test_def add_data_filled)

lemma loop_body_filled:
  assumes "snd st = (0, 0)" "loop_body self fr d st = Inr (ev, c)"
  shows "c = Continue st \<or> c = Break st"
  using assms
  by (auto simp: loop_body_def Let_def add_data_filled iou_test_filled
           split: sum.splits prod.splits if_splits)

lemma sample_loop_disjoint_step:
  assumes "gen_region self fr (rnd i) = Inr (nlt, nbr, nsz)" "overlap_test fr nlt nbr"
  shows "sample_loop self fr rnd i tr st =
         sample_loop self fr rnd (i + 1) (tr @ [Disjoint]) (add_data False nlt nbr st)"
  using assms by (subst sample_loop.simps) (simp add: loop_body_def)

lemma sample_loop_hit_filled:
  assumes "gen_region self fr (rnd i) = Inr (nlt, nbr, nsz)" "\<not> overlap_test fr nlt nbr"
    and "snd st = (0, 0)"
  shows "sample_loop self fr rnd i tr st = Some (Inr (st, tr @ [Scored (iou_step fr nlt nbr nsz)]))"
  using assms by (subst sample_loop.simps) (simp add: loop_body_def iou_test_filled Let_def)

lemma sample_loop_skip_filled:
  assumes dis: "\<And>k. i \<le> k \<Longrightarrow> k < i + n \<Longrightarrow>
            \<exists>a b c. gen_region self fr (rnd k) = Inr (a, b, c) \<and> overlap_test fr a b"
    and filled: "snd st = (0, 0)"
  shows "sample_loop self fr rnd i tr st = sample_loop self fr rnd (i + n) (tr @ replicate n Disjoint) st"
  using dis
proof (induction n arbitrary: i tr)
  case 0
  then show ?case by simp
next
  case (Suc n)
  from Suc.prems[of i] obtain a b c where
    g: "gen_region self fr (rnd i) = Inr (a, b, c)" and o: "overlap_test fr a b" by auto
  have "sample_loop self fr rnd i tr st = sample_loop self fr rnd (i + 1) (tr @ [Disjoint]) st"
    using sample_loop_disjoint_step[where rnd = rnd and i = i, OF g o] add_data_filled[OF filled]
    by simp
  also have "\<dots> = sample_loop self fr rnd (i + 1 + n) ((tr @ [Disjoint]) @ replicate n Disjoint) st"
    by (rule Suc.IH) (use Suc.prems in auto)
  finally show ?case by (simp add: replicate_app_Cons_same)
qed

text \<open>
  Claim C6, as stated, fails: with \<^verbatim>\<open>num=[0, 0]\<close> the call draws before it tests the
  counters; here it returns the empty list after one draw, not after none.
\<close>

theorem zero_quota_counterexample:
  "SimpleSampler_call smp_none () (0, 0, 10, 10) (\<lambda>i. d_centre) =
     Some (Inr (\<lparr> img = (), crops = [], transforms = None, target_transforms_pos = None,
                  target_transforms_neg = None \<rparr>, [Scored (Finite 10)]))"
  by (simp add: SimpleSampler_call_def sample_loop.simps smp_none_def ex_defs body_defs)

text \<open>
  Claim C6, amended. With \<^verbatim>\<open>num=[0, 0]\<close> every call that returns has performed at least
  one draw and returns an empty candidate list; when the candidate of the first draw
  passes the overlap test, the call returns right after that one draw.
\<close>

theorem zero_quota_call:
  assumes zero: "num self = (0, 0)"
  shows "(SimpleSampler_call self im bbox rnd = Some (Inr (view, tr))
            \<longrightarrow> crops view = [] \<and> 1 \<le> length tr)
       \<and> (gen_region self (call_frame self bbox) (rnd 0) = Inr (nlt, nbr, nsz)
            \<and> \<not> overlap_test (call_frame self bbox) nlt nbr \<longrightarrow>
          SimpleSampler_call self im bbox rnd =
            Some (Inr (\<lparr> img = im, crops = [], transforms = s_transforms self,
                         target_transforms_pos = s_target_transforms_pos self,
                         target_transforms_neg = s_target_transforms_neg self \<rparr>,
                       [Scored (iou_step (call_frame self bbox) nlt nbr nsz)])))"
proof -
  have a: "crops view = [] \<and> 1 \<le> length tr"
    if ret: "SimpleSampler_call self im bbox rnd = Some (Inr (view, tr))"
  proof -
    from ret obtain dat rm where
      run: "sample_loop self (call_frame self bbox) rnd 0 [] ([], num self) = Some (Inr ((dat, rm), tr))"
      and view: "crops view = dat"
      by (auto simp: SimpleSampler_call_def split: option.splits sum.splits prod.splits)
    have "(dat, rm) = ([], (0, 0)) \<and> 1 \<le> length tr"
      by (rule sample_loop_rule[OF run, where I = "\<lambda>i tr st. st = ([], (0, 0))"
            and Q = "\<lambda>st tr. st = ([], (0, 0)) \<and> 1 \<le> length tr"])
         (use zero loop_body_filled in \<open>fastforce+\<close>)
    with view show ?thesis by simp
  qed
  have b: "SimpleSampler_call self im bbox rnd =
            Some (Inr (\<lparr> img = im, crops = [], transforms = s_transforms self,
                         target_transforms_pos = s_target_transforms_pos self,
                         target_transforms_neg = s_target_transforms_neg self \<rparr>,
                       [Scored (iou_step (call_frame self bbox) nlt nbr nsz)]))"
    if h: "gen_region self (call_frame self bbox) (rnd 0) = Inr (nlt, nbr, nsz)
            \<and> \<not> overlap_test (call_frame self bbox) nlt nbr"
  proof -
    from h have "sample_loop self (call_frame self bbox) rnd 0 [] ([], num self) =
       Some (Inr (([], num self), [] @ [Scored (iou_step (call_frame self bbox) nlt nbr nsz)]))"
      using zero sample_loop_hit_filled[where rnd = rnd and i = 0 and st = "([], num self)"
          and tr = "[]" and self = self and fr = "call_frame self bbox" and nlt = nlt
          and nbr = nbr and nsz = nsz]
      by simp
    then show ?thesis
      by (simp add: SimpleSampler_call_def)
  qed
  from a b show ?thesis by blast
qed

theorem zero_quota_call_witness:
  "num smp_none = (0, 0)
   \<and> SimpleSampler_call smp_none () (2, 2, 8, 8) rnd_ex =
       Some (Inr (\<lparr> img = (), crops = [], transforms = None, target_transforms_pos = None,
                    target_transforms_neg = None \<rparr>, [Scored (Finite (18 / 35))]))
   \<and> 1 \<le> length [Scored (Finite (18 / 35))]"
proof -
  let ?fr = "call_frame smp_none (2, 2, 8, 8)"
  have zero: "num smp_none = (0, 0)" by (simp add: smp_none_def ex_defs)
  have gen: "gen_region smp_none ?fr (rnd_ex 0) = Inr ((0, 0), (10, 10), (5, 5))
      \<and> \<not> overlap_test ?fr (0, 0) (10, 10)"
    by (simp add: smp_none_def ex_defs body_defs)
  have iou: "iou_step ?fr (0, 0) (10, 10) (5, 5) = Finite (18 / 35)"
    by (simp add: smp_none_def ex_defs body_defs)
  from zero_quota_call[OF zero, of "()" "(2, 2, 8, 8)" rnd_ex _ _ "(0, 0)" "(10, 10)" "(5, 5)"]
    gen iou zero
  show ?thesis by (simp add: smp_none_def ex_defs)
qed

text \<open>
  Claim C10. The test of the counters is reached only by an iteration whose candidate
  passes the overlap test: an iteration whose candidate is rejected as disjoint continues,
  whatever the counters are. So from a state in which both quotas are filled, the loop
  keeps drawing through every disjoint candidate and returns at the first draw whose
  candidate passes the overlap test, with the state unchanged.
\<close>

theorem exit_only_on_overlapping_draw:
  assumes dis: "\<forall>k. i \<le> k \<and> k < j \<longrightarrow>
            (\<exists>a b c. gen_region self fr (rnd k) = Inr (a, b, c) \<and> overlap_test fr a b)"
    and hit: "gen_region self fr (rnd j) = Inr (nlt, nbr, nsz)" "\<not> overlap_test fr nlt nbr"
    and le: "i \<le> j"
  shows "(\<forall>k st. i \<le> k \<and> k < j \<longrightarrow>
            (\<exists>st'. loop_body self fr (rnd k) st = Inr (Disjoint, Continue st')))
       \<and> (\<forall>st. snd st = (0, 0) \<longrightarrow>
            sample_loop self fr rnd i tr st =
              Some (Inr (st, tr @ replicate (j - i) Disjoint @ [Scored (iou_step fr nlt nbr nsz)])))"
proof (intro conjI allI impI)
  fix k st assume "i \<le> k \<and> k < j"
  with dis obtain a b c where "gen_region self fr (rnd k) = Inr (a, b, c)" "overlap_test fr a b"
    by blast
  then have "loop_body self fr (rnd k) st = Inr (Disjoint, Continue (add_data False a b st))"
    by (simp add: loop_body_def)
  then show "\<exists>st'. loop_body self fr (rnd k) st = Inr (Disjoint, Continue st')"
    by blast
next
  fix st :: lstate assume filled: "snd st = (0, 0)"
  have "sample_loop self fr rnd i tr st =
        sample_loop self fr rnd (i + (j - i)) (tr @ replicate (j - i) Disjoint) st"
    by (rule sample_loop_skip_filled[OF _ filled]) (use dis le in auto)
  also have "i + (j - i) = j" using le by simp
  finally show "sample_loop self fr rnd i tr st =
      Some (Inr (st, tr @ replicate (j - i) Disjoint @ [Scored (iou_step fr nlt nbr nsz)]))"
    using sample_loop_hit_filled[where rnd = rnd and i = j, OF hit filled] by simp
qed

text \<open>Both quotas are filled; two disjoint draws follow, then one on the reference box.\<close>

theorem exit_only_on_overlapping_draw_witness:
  "sample_loop smp_ex (call_frame smp_ex (0, 0, 10, 10)) rnd_far2 0 []
     ([(True, 0, 0, 10, 10), (False, 30, 0, 40, 10)], (0, 0)) =
     Some (Inr (([(True, 0, 0, 10, 10), (False, 30, 0, 40, 10)], (0, 0)),
                [Disjoint, Disjoint, Scored (Finite 10)]))"
proof -
  let ?fr = "call_frame smp_ex (0, 0, 10, 10)"
  have dis: "\<forall>k. 0 \<le> k \<and> k < 2 \<longrightarrow>
      (\<exists>a b c. gen_region smp_ex ?fr (rnd_far2 k) = Inr (a, b, c) \<and> overlap_test ?fr a b)"
    by (simp add: rnd_far2_def ex_defs body_defs)
  have hit: "gen_region smp_ex ?fr (rnd_far2 2) = Inr ((0, 0), (10, 10), (5, 5))"
    "\<not> overlap_test ?fr (0, 0) (10, 10)"
    by (simp_all add: rnd_far2_def ex_defs body_defs)
  have "iou_step ?fr (0, 0) (10, 10) (5, 5) = Finite 10"
    by (simp add: ex_defs body_defs)
  with exit_only_on_overlapping_draw[OF dis hit, of "[]"] show ?thesis
    by (simp add: numeral_2_eq_2)
qed

text \<open>
  When every draw from some iteration on is rejected as disjoint, the loop never returns,
  whatever the counters are.
\<close>

lemma sample_loop_all_disjoint_diverges:
  assumes dis: "\<forall>k \<ge> i. \<exists>a b c. gen_region self fr (rnd k) = Inr (a, b, c) \<and> overlap_test fr a b"
  shows "sample_loop self fr rnd i tr st = None"
proof (rule ccontr)
  assume "sample_loop self fr rnd i tr st \<noteq> None"
  then obtain y where run: "sample_loop self fr rnd i tr st = Some y" by auto
  have "s = self \<longrightarrow> f = fr \<longrightarrow> r = rnd \<longrightarrow>
          (\<forall>k \<ge> i. \<exists>a b c. gen_region self fr (rnd k) = Inr (a, b, c) \<and> overlap_test fr a b)
          \<longrightarrow> False"
    if "sample_loop s f r i tr st = Some y" for s f r i tr st y
    using that
  proof (induction s f r i tr st y rule: sample_loop.raw_induct[rotated 1, consumes 1])
    case (1 loop s f r i tr st y)
    show ?case
    proof (intro impI)
      assume eqs: "s = self" "f = fr" "r = rnd"
        and all: "\<forall>k \<ge> i. \<exists>a b c. gen_region self fr (rnd k) = Inr (a, b, c) \<and> overlap_test fr a b"
      then obtain a b c where "gen_region self fr (rnd i) = Inr (a, b, c)" "overlap_test fr a b"
        by blast
      then have "loop_body self fr (rnd i) st = Inr (Disjoint, Continue (add_data False a b st))"
        by (simp add: loop_body_def)
      with 1(2) eqs have "loop self fr rnd (i + 1) (tr @ [Disjoint]) (add_data False a b st) = Some y"
        by simp
      moreover from all have
        "\<forall>k \<ge> i + 1. \<exists>a b c. gen_region self fr (rnd k) = Inr (a, b, c) \<and> overlap_test fr a b"
        by simp
      ultimately show False using 1(1) by blast
    qed
  qed
  from this[OF run] dis show False by blast
qed

section \<open>Properties of RegionDataset\<close>

text \<open>
  Claim C8. For every index in range (counted from either end) of a view constructed
  with no transform functions, an access returns the image cropped to the box of that
  candidate, paired with the raw box, and leaves the view as it was; a second access
  returns the same result.
\<close>

theorem getitem_repeatable:
  assumes range: "- int (length (crops v)) \<le> i" "i < int (length (crops v))"
    and none: "transforms v = None" "target_transforms_pos v = None" "target_transforms_neg v = None"
  shows "RegionDataset_getitem crop v i =
           Inr ((crop (img v) (snd (crops v ! nat (if i < 0 then int (length (crops v)) + i else i))),
                 Raw (snd (crops v ! nat (if i < 0 then int (length (crops v)) + i else i)))), v)
       \<and> (\<forall>r v'. RegionDataset_getitem crop v i = Inr (r, v') \<longrightarrow>
             v' = v \<and> RegionDataset_getitem crop v' i = Inr (r, v'))"
  using assms
  by (auto simp: RegionDataset_getitem_def list_getitem_def Let_def split: prod.splits)

theorem getitem_repeatable_witness:
  "RegionDataset_getitem crop_ex view_ex 1 = Inr ((''frame[30:40,0:10]'', Raw (30, 0, 40, 10)), view_ex)"
proof -
  have range: "- int (length (crops view_ex)) \<le> 1" "1 < int (length (crops view_ex))"
    by (simp_all add: view_ex_def)
  have none: "transforms view_ex = None" "target_transforms_pos view_ex = None"
    "target_transforms_neg view_ex = None"
    by (simp_all add: view_ex_def)
  from getitem_repeatable[OF range none, of crop_ex] show ?thesis
    by (simp add: view_ex_def crop_ex_def)
qed

section \<open>Properties of Folder\<close>

lemma py_min_error: "py_min xs = Inl e \<Longrightarrow> e = TypeError"
  by (cases xs rule: py_min.cases) auto

lemma py_max_error: "py_max xs = Inl e \<Longrightarrow> e = TypeError"
  by (cases xs rule: py_max.cases) auto

lemma gen_bbox_error: "gen_bbox gt = Inl e \<Longrightarrow> e = IndexError \<or> e = TypeError"
  by (cases gt) (auto simp: Let_def split: sum.splits dest: py_min_error py_max_error)

lemma Folder_loop_error:
  "Folder_loop folder ps acc = Inl e \<Longrightarrow> e = IndexError \<or> e = TypeError"
  by (induction folder ps acc rule: Folder_loop.induct)
     (auto split: sum.splits dest: gen_bbox_error)

lemma iter_array_error: "iter_array a = Inl e \<Longrightarrow> e = TypeError"
  by (cases a) auto

text \<open>
  Claim C7, as stated, fails: in a directory that exists and holds a regular file
  \<^verbatim>\<open>groundtruth.txt\<close>, a ground-truth text that \<^verbatim>\<open>numpy.genfromtxt\<close> rejects makes the
  constructor raise a \<^verbatim>\<open>ValueError\<close> as well.
\<close>

theorem Folder_init_ragged_counterexample:
  "isdir (fs env_ragged) (abspath_expanduser env_ragged ''seq'')
   \<and> isfile (fs env_ragged) (path_join (abspath_expanduser env_ragged ''seq'') ''groundtruth.txt'')
   \<and> Folder_init env_ragged ''seq'' (\<lambda>p. ()) = Inl (ValueError ''Some errors were detected !'')"
  by (simp add: Folder_init_def env_ragged_def env_ex_def gt_ragged_def gt_text_def isdir_def
        isfile_def path_join_def read_text_def Let_def)

text \<open>
  Claim C7, amended. The constructor raises a \<^verbatim>\<open>ValueError\<close> when the path, made
  absolute, does not exist or is not a directory (message \<^verbatim>\<open>Not a valid foler\<close>), and when
  no regular file \<^verbatim>\<open>groundtruth.txt\<close> is in the directory (message
  \<^verbatim>\<open>Groundtruth file not found\<close>); the error is the result of the construction, so no
  folder object and no entry list is produced. A \<^verbatim>\<open>ValueError\<close> of the construction has
  one of these three causes or comes from \<^verbatim>\<open>numpy.genfromtxt\<close> rejecting the text of the
  ground-truth file with a \<^verbatim>\<open>ValueError\<close>.
\<close>

theorem Folder_init_configuration_error:
  "((\<exists>m. Folder_init env folder ld = Inl (ValueError m))
      \<longleftrightarrow>
      (fs env (abspath_expanduser env folder) = None
       \<or> (\<exists>txt. fs env (abspath_expanduser env folder) = Some (RegularFile txt))
       \<or> \<not> isfile (fs env) (path_join (abspath_expanduser env folder) ''groundtruth.txt'')
       \<or> (\<exists>m. genfromtxt env (read_text (fs env)
                  (path_join (abspath_expanduser env folder) ''groundtruth.txt''))
                = Inl (ValueError m))))
   \<and> (fs env (abspath_expanduser env folder) = None
        \<or> (\<exists>txt. fs env (abspath_expanduser env folder) = Some (RegularFile txt)) \<longrightarrow>
       Folder_init env folder ld =
         Inl (ValueError (''Not a valid foler: '' @ abspath_expanduser env folder)))
   \<and> (isdir (fs env) (abspath_expanduser env folder)
        \<and> \<not> isfile (fs env) (path_join (abspath_expanduser env folder) ''groundtruth.txt'') \<longrightarrow>
       Folder_init env folder ld =
         Inl (ValueError (''Groundtruth file not found: ''
                            @ path_join (abspath_expanduser env folder) ''groundtruth.txt'')))"
proof -
  let ?folder = "abspath_expanduser env folder"
  let ?gt = "path_join ?folder ''groundtruth.txt''"
  have dir: "\<not> isdir (fs env) ?folder \<longleftrightarrow>
      fs env ?folder = None \<or> (\<exists>txt. fs env ?folder = Some (RegularFile txt))"
    by (auto simp: isdir_def split: option.splits node.splits)
  have nodir: "Folder_init env folder ld = Inl (ValueError (''Not a valid foler: '' @ ?folder))"
    if "\<not> isdir (fs env) ?folder"
    using that by (simp add: Folder_init_def Let_def)
  have nogt: "Folder_init env folder ld = Inl (ValueError (''Groundtruth file not found: '' @ ?gt))"
    if "isdir (fs env) ?folder" "\<not> isfile (fs env) ?gt"
    using that by (simp add: Folder_init_def Let_def)
  have valid: "(\<exists>m. Folder_init env folder ld = Inl (ValueError m)) \<longleftrightarrow>
      (\<exists>m. genfromtxt env (read_text (fs env) ?gt) = Inl (ValueError m))"
    if "isdir (fs env) ?folder" "isfile (fs env) ?gt"
    using that
    by (auto simp: Folder_init_def Let_def split: sum.splits
             dest: iter_array_error Folder_loop_error)
  show ?thesis
  proof (cases "isdir (fs env) ?folder")
    case False
    with nodir dir show ?thesis by auto
  next
    case d: True
    show ?thesis
    proof (cases "isfile (fs env) ?gt")
      case False
      with nogt[OF d] d dir show ?thesis by auto
    next
      case True
      with valid[OF d] d dir show ?thesis by auto
    qed
  qed
qed

text \<open>
  A path that does not exist is refused with the first message; the sequence directory
  with its well-formed ground-truth file raises no \<^verbatim>\<open>ValueError\<close>.
\<close>

theorem Folder_init_configuration_error_witness:
  "Folder_init env_ex ''missing'' (\<lambda>p. ()) = Inl (ValueError ''Not a valid foler: /data/missing'')
   \<and> fs env_ex (abspath_expanduser env_ex ''missing'') = None
   \<and> \<not> (\<exists>m. Folder_init env_ex ''seq'' (\<lambda>p. ()) = Inl (ValueError m))"
proof -
  let ?gt = "path_join (abspath_expanduser env_ex ''seq'') ''groundtruth.txt''"
  have b: "fs env_ex (abspath_expanduser env_ex ''missing'') = None"
    by (simp add: env_ex_def)
  have c: "\<not> (fs env_ex (abspath_expanduser env_ex ''seq'') = None
    \<or> (\<exists>txt. fs env_ex (abspath_expanduser env_ex ''seq'') = Some (RegularFile txt))
    \<or> \<not> isfile (fs env_ex) ?gt
    \<or> (\<exists>m. genfromtxt env_ex (read_text (fs env_ex) ?gt) = Inl (ValueError m)))"
    by (simp add: env_ex_def isfile_def path_join_def read_text_def)
  from Folder_init_configuration_error[of env_ex "''missing''" "\<lambda>p. ()"] b
  have a: "Folder_init env_ex ''missing'' (\<lambda>p. ()) =
      Inl (ValueError (''Not a valid foler: '' @ abspath_expanduser env_ex ''missing''))"
    by blast
  from Folder_init_configuration_error[of env_ex "''seq''" "\<lambda>p. ()"] c
  have "\<not> (\<exists>m. Folder_init env_ex ''seq'' (\<lambda>p. ()) = Inl (ValueError m))"
    by blast
  with a b show ?thesis by (simp add: env_ex_def)
qed










end
